theory Spec2Isabelle
  imports Main
begin

section \<open>JavaScript values used by the two route handlers\<close>

text \<open>
  Optional string fields are \<open>string option\<close>; \<open>None\<close> is \<open>undefined\<close>.
  JavaScript tests such a field by truthiness: \<open>undefined\<close> and the empty string are
  falsy, every other string is truthy.  \<open>truthy\<close> returns the string when the test
  succeeds.
\<close>

fun truthy :: "string option \<Rightarrow> string option" where
  "truthy None = None"
| "truthy (Some s) = (if s = [] then None else Some s)"

text \<open>\<^verbatim>\<open>x || d\<close> on an optional string.\<close>

definition or_else :: "string option \<Rightarrow> string \<Rightarrow> string" where
  "or_else x d = (case truthy x of Some s \<Rightarrow> s | None \<Rightarrow> d)"

text \<open>\<^verbatim>\<open>xs.join("\n")\<close>.\<close>

fun join_nl :: "string list \<Rightarrow> string" where
  "join_nl [] = []"
| "join_nl [x] = x"
| "join_nl (x # y # ys) = x @ CHR 0x0A # join_nl (y # ys)"

section \<open>Data model\<close>

text \<open>
  A content part as both routes build and read it: an object with an optional
  \<^verbatim>\<open>inlineData\<close> field (itself with optional \<^verbatim>\<open>data\<close> and \<^verbatim>\<open>mimeType\<close>) and an
  optional \<^verbatim>\<open>text\<close> field (\<open>ptext\<close> here).
\<close>

record blob =
  data :: "string option"
  mimeType :: "string option"

record part =
  inlineData :: "blob option"
  ptext :: "string option"

record turn =
  role :: string
  parts :: "part list"

text \<open>
  Turn objects live in a store; a reference is the position of the object in it.  An
  array of turns (\<^verbatim>\<open>history\<close>, \<^verbatim>\<open>contents\<close>) is a list of references, so the shallow copy
  \<^verbatim>\<open>[...history]\<close> shares the turn objects with \<^verbatim>\<open>history\<close>.  The \<^verbatim>\<open>parts\<close> array of a turn
  is owned by that turn alone (a parsed JSON body is a tree, and every turn the handlers
  create gets a fresh array), so it is kept inside the turn object.
\<close>

type_synonym ref = nat
type_synonym store = "turn list"

definition deref :: "store \<Rightarrow> ref list \<Rightarrow> turn list" where
  "deref s rs = map (\<lambda>r. s ! r) rs"

definition valid_refs :: "store \<Rightarrow> ref list \<Rightarrow> bool" where
  "valid_refs s rs = list_all (\<lambda>r. r < length s) rs"

text \<open>An uploaded attachment \<^verbatim>\<open>{ data: string; mimeType?: string }\<close>.\<close>

record attachment =
  adata :: string
  amimeType :: "string option"

text \<open>
  The \<^verbatim>\<open>prompt\<close> field of a body: a string, or some JSON value that is not a string
  (both handlers test \<^verbatim>\<open>typeof prompt\<close>).
\<close>

datatype prompt_val = PStr string | PNonString

text \<open>
  The parsed JSON body.  Each route reads its own fields.  \<open>None\<close> for \<open>images\<close>,
  \<open>files\<close> and \<open>history\<close> is a field that is absent or not an array
  (\<^verbatim>\<open>Array.isArray\<close> is false).
\<close>

record body =
  prompt :: "prompt_val option"
  images :: "attachment list option"
  files :: "attachment list option"
  aspectRatio :: "string option"
  responseType :: "string option"
  history :: "ref list option"

text \<open>The provider's response, with every field optional as the handlers read it.\<close>

record content =
  cparts :: "part list option"

record candidate =
  content :: "content option"
  finishReason :: "string option"

record prompt_feedback =
  blockReason :: "string option"

record response =
  rparts :: "part list option"
  candidates :: "candidate list option"
  promptFeedback :: "prompt_feedback option"

record config =
  responseModalities :: "string list"
  imageConfig :: "string option"

record gen_request =
  model :: string
  contents :: "turn list"
  gconfig :: "config option"

record env =
  GEMINI_API_KEY :: "string option"
  GEMINI_TEXT_MODEL :: "string option"
  GEMINI_IMAGE_MODEL :: "string option"

text \<open>
  The client is identified with the key it was made from.  The provider call either
  throws (\<open>Inl\<close> the error's message) or returns a response.
\<close>

type_synonym client = string
type_synonym provider = "client \<Rightarrow> gen_request \<Rightarrow> string + response"

record image_out =
  odata :: string
  omimeType :: string

datatype http_response =
    JsonImages "image_out list" string
  | JsonText string
  | JsonError nat string

section \<open>lib/gemini.ts\<close>

definition getAI :: "env \<Rightarrow> client option \<Rightarrow> (string + client) \<times> client option" where
  "getAI e ai =
     (case ai of
        Some c \<Rightarrow> (Inr c, ai)
      | None \<Rightarrow>
          (case truthy (GEMINI_API_KEY e) of
             None \<Rightarrow> (Inl ''GEMINI_API_KEY is not set in environment'', None)
           | Some k \<Rightarrow> (Inr k, Some k)))"

definition TEXT_MODEL :: "env \<Rightarrow> string" where
  "TEXT_MODEL e = or_else (GEMINI_TEXT_MODEL e) ''models/gemini-1.5-flash-latest''"


section \<open>Building the conversation\<close>

text \<open>\<^verbatim>\<open>Array.isArray(history) ? [...history] : []\<close>\<close>

definition copy_history :: "ref list option \<Rightarrow> ref list" where
  "copy_history h = (case h of Some rs \<Rightarrow> rs | None \<Rightarrow> [])"

text \<open>\<^verbatim>\<open>contents.push({ role: ..., parts: ... })\<close>: a new object, then its reference.\<close>

definition push_turn :: "store \<Rightarrow> ref list \<Rightarrow> turn \<Rightarrow> store \<times> ref list" where
  "push_turn s c t = (s @ [t], c @ [length s])"

definition text_part :: "string \<Rightarrow> part" where
  "text_part p = \<lparr>inlineData = None, ptext = Some p\<rparr>"

definition inline_part :: "attachment \<Rightarrow> part" where
  "inline_part img =
     \<lparr>inlineData = Some \<lparr>data = Some (adata img),
                          mimeType = Some (or_else (amimeType img) ''image/png'')\<rparr>,
      ptext = None\<rparr>"

subsection \<open>Image route\<close>

definition image_userParts :: "string \<Rightarrow> attachment list option \<Rightarrow> part list" where
  "image_userParts p imgs =
     (let userParts = [text_part p] in
      case imgs of
        Some xs \<Rightarrow> if length xs > 0 then userParts @ map inline_part xs else userParts
      | None \<Rightarrow> userParts)"

definition image_contents :: "store \<Rightarrow> body \<Rightarrow> string \<Rightarrow> store \<times> ref list" where
  "image_contents s b p =
     (let contents = copy_history (history b);
          userParts = image_userParts p (images b)
      in push_turn s contents \<lparr>role = ''user'', parts = userParts\<rparr>)"


subsection \<open>Text route\<close>

text \<open>The optional prompt turn (lines 12 to 14 of the text route).\<close>

definition text_push_prompt :: "store \<Rightarrow> ref list \<Rightarrow> prompt_val option \<Rightarrow> store \<times> ref list" where
  "text_push_prompt s c pr =
     (case pr of
        Some (PStr p) \<Rightarrow>
          (if p \<noteq> [] then push_turn s c \<lparr>role = ''user'', parts = [text_part p]\<rparr> else (s, c))
      | _ \<Rightarrow> (s, c))"

text \<open>
  Lines 23 to 28 of the text route: \<^verbatim>\<open>contents[contents.length - 1].parts.push(...)\<close>
  changes the turn object that the last reference names.
\<close>

definition attach_files :: "store \<Rightarrow> ref list \<Rightarrow> part list \<Rightarrow> store \<times> ref list" where
  "attach_files s c inlineParts =
     (if length c > 0 \<and> role (s ! (c ! (length c - 1))) = ''user''
      then (let r = c ! (length c - 1)
            in (s[r := (s ! r)\<lparr>parts := parts (s ! r) @ inlineParts\<rparr>], c))
      else push_turn s c \<lparr>role = ''user'', parts = inlineParts\<rparr>)"

definition text_contents :: "store \<Rightarrow> body \<Rightarrow> store \<times> ref list" where
  "text_contents s b =
     (let (s1, c1) = text_push_prompt s (copy_history (history b)) (prompt b)
      in case files b of
           Some fs \<Rightarrow> if length fs > 0 then attach_files s1 c1 (map inline_part fs) else (s1, c1)
         | None \<Rightarrow> (s1, c1))"

section \<open>Reading the provider's response\<close>

text \<open>\<^verbatim>\<open>response?.candidates?.[0]?.content?.parts || []\<close>\<close>

definition candidate_parts :: "response \<Rightarrow> part list" where
  "candidate_parts r =
     (case candidates r of
        None \<Rightarrow> []
      | Some cs \<Rightarrow>
          (case cs of
             [] \<Rightarrow> []
           | c # _ \<Rightarrow>
               (case content c of
                  None \<Rightarrow> []
                | Some ct \<Rightarrow> (case cparts ct of None \<Rightarrow> [] | Some ps \<Rightarrow> ps))))"

text \<open>Lines 56 to 58 of the image route: the top-level parts when their length is truthy.\<close>

definition image_response_parts :: "response \<Rightarrow> part list" where
  "image_response_parts r =
     (case rparts r of
        Some ps \<Rightarrow> if length ps \<noteq> 0 then ps else candidate_parts r
      | None \<Rightarrow> candidate_parts r)"

text \<open>\<^verbatim>\<open>part.inlineData?.data\<close> and \<^verbatim>\<open>part.inlineData.mimeType\<close>\<close>

definition part_data :: "part \<Rightarrow> string option" where
  "part_data p = (case inlineData p of None \<Rightarrow> None | Some b \<Rightarrow> data b)"

definition part_mimeType :: "part \<Rightarrow> string option" where
  "part_mimeType p = (case inlineData p of None \<Rightarrow> None | Some b \<Rightarrow> mimeType b)"

text \<open>The loop of lines 63 to 69, with its two output arrays.\<close>

fun classify_parts :: "part list \<Rightarrow> image_out list \<Rightarrow> string list \<Rightarrow> image_out list \<times> string list" where
  "classify_parts [] imagesOut textsOut = (imagesOut, textsOut)"
| "classify_parts (p # ps) imagesOut textsOut =
     (case truthy (part_data p) of
        Some d \<Rightarrow>
          classify_parts ps
            (imagesOut @ [\<lparr>odata = d, omimeType = or_else (part_mimeType p) ''image/png''\<rparr>])
            textsOut
      | None \<Rightarrow>
          (case truthy (ptext p) of
             Some t \<Rightarrow> classify_parts ps imagesOut (textsOut @ [t])
           | None \<Rightarrow> classify_parts ps imagesOut textsOut))"

text \<open>\<^verbatim>\<open>response?.candidates?.[0]?.finishReason\<close> and \<^verbatim>\<open>response?.promptFeedback?.blockReason\<close>\<close>

definition finish_reason_of :: "response \<Rightarrow> string option" where
  "finish_reason_of r =
     (case candidates r of
        None \<Rightarrow> None
      | Some cs \<Rightarrow> (case cs of [] \<Rightarrow> None | c # _ \<Rightarrow> finishReason c))"

definition block_reason_of :: "response \<Rightarrow> string option" where
  "block_reason_of r = (case promptFeedback r of None \<Rightarrow> None | Some f \<Rightarrow> blockReason f)"

text \<open>The message of lines 74 to 78.\<close>

definition failure_msg :: "response \<Rightarrow> string" where
  "failure_msg r =
     (case truthy (block_reason_of r) of
        Some b \<Rightarrow> ''Request blocked: '' @ b
      | None \<Rightarrow>
          (case truthy (finish_reason_of r) of
             Some f \<Rightarrow> ''No output returned (finish reason: '' @ f @ '')''
           | None \<Rightarrow> ''No output returned''))"

text \<open>Lines 55 to 82 of the image route: what the handler answers to a response.\<close>

definition image_result :: "response \<Rightarrow> http_response" where
  "image_result r =
     (let (imagesOut, textsOut) = classify_parts (image_response_parts r) [] []
      in if length imagesOut = 0 \<and> length textsOut = 0
         then JsonError 500 (failure_msg r)
         else JsonImages imagesOut (join_nl textsOut))"

text \<open>Lines 41 and 42 of the text route.\<close>

definition text_result :: "response \<Rightarrow> string" where
  "text_result r =
     join_nl (map (\<lambda>p. or_else (ptext p) []) (filter (\<lambda>p. truthy (ptext p) \<noteq> None) (candidate_parts r)))"

section \<open>The handlers\<close>

text \<open>The \<^verbatim>\<open>catch\<close> block of both handlers.\<close>

definition catch_error :: "string \<Rightarrow> http_response" where
  "catch_error msg = JsonError 500 (or_else (Some msg) ''Unexpected error'')"


definition POST_text :: "env \<Rightarrow> client option \<Rightarrow> provider \<Rightarrow> store \<Rightarrow> body \<Rightarrow> http_response" where
  "POST_text e ai prov s b =
     (let (s', c) = text_contents s b
      in if length c = 0 then JsonError 400 ''Provide a prompt or files''
         else
           (case fst (getAI e ai) of
              Inl msg \<Rightarrow> catch_error msg
            | Inr cl \<Rightarrow>
                (case prov cl \<lparr>model = TEXT_MODEL e, contents = deref s' c, gconfig = None\<rparr> of
                   Inl msg \<Rightarrow> catch_error msg
                 | Inr r \<Rightarrow> JsonText (text_result r))))"

section \<open>The failure kinds of the specification\<close>




section \<open>Concrete requests and responses\<close>

definition ex_blocked :: response where
  "ex_blocked = \<lparr>rparts = None,
                 candidates = Some [\<lparr>content = None, finishReason = Some ''STOP''\<rparr>],
                 promptFeedback = Some \<lparr>blockReason = Some ''SAFETY''\<rparr>\<rparr>"

definition ex_empty_top :: response where
  "ex_empty_top =
     \<lparr>rparts = Some [],
      candidates = Some [\<lparr>content = Some \<lparr>cparts = Some [text_part ''hi'']\<rparr>,
                          finishReason = None\<rparr>],
      promptFeedback = None\<rparr>"

definition ex_both_shapes :: response where
  "ex_both_shapes =
     \<lparr>rparts = Some [text_part ''new''],
      candidates = Some [\<lparr>content = Some \<lparr>cparts = Some [text_part ''old'']\<rparr>,
                          finishReason = None\<rparr>],
      promptFeedback = None\<rparr>"

definition ex_env :: env where
  "ex_env = \<lparr>GEMINI_API_KEY = Some ''k'', GEMINI_TEXT_MODEL = None, GEMINI_IMAGE_MODEL = None\<rparr>"

text \<open>A provider that answers every request with the same response.\<close>

definition const_provider :: "response \<Rightarrow> provider" where
  "const_provider r cl rq = Inr r"

definition ex_reply :: response where
  "ex_reply =
     \<lparr>rparts = None,
      candidates = Some [\<lparr>content = Some \<lparr>cparts = Some [text_part ''ok'']\<rparr>,
                          finishReason = Some ''STOP''\<rparr>],
      promptFeedback = None\<rparr>"

text \<open>A store with one earlier user turn and one earlier model turn.\<close>

definition ex_store :: store where
  "ex_store = [\<lparr>role = ''user'', parts = [text_part ''hi'']\<rparr>,
               \<lparr>role = ''model'', parts = [text_part ''hello'']\<rparr>]"

definition ex_png :: attachment where
  "ex_png = \<lparr>adata = ''QUJD'', amimeType = None\<rparr>"

definition ex_jpeg :: attachment where
  "ex_jpeg = \<lparr>adata = ''REVG'', amimeType = Some ''image/jpeg''\<rparr>"

definition empty_body :: body where
  "empty_body = \<lparr>prompt = None, images = None, files = None, aspectRatio = None,
                 responseType = None, history = None\<rparr>"

section \<open>What one response part contributes\<close>

text \<open>
  The specification classifies a part by its inline-binary field, else by its text
  field, else drops it.  \<open>image_of_part\<close> and \<open>text_of_part\<close> say what a single part adds
  to the images and to the texts, with the truthiness tests of the route.
\<close>

definition image_of_part :: "part \<Rightarrow> image_out option" where
  "image_of_part p =
     (case truthy (part_data p) of
        Some d \<Rightarrow> Some \<lparr>odata = d, omimeType = or_else (part_mimeType p) ''image/png''\<rparr>
      | None \<Rightarrow> None)"

definition text_of_part :: "part \<Rightarrow> string option" where
  "text_of_part p = (case truthy (part_data p) of Some d \<Rightarrow> None | None \<Rightarrow> truthy (ptext p))"

definition ex_captioned :: part where
  "ex_captioned = \<lparr>inlineData = Some \<lparr>data = Some ''QUJD'', mimeType = None\<rparr>,
                   ptext = Some ''caption''\<rparr>"

definition ex_hello_jpeg :: response where
  "ex_hello_jpeg =
     \<lparr>rparts = None,
      candidates =
        Some [\<lparr>content =
                 Some \<lparr>cparts =
                   Some [text_part ''hello'',
                         \<lparr>inlineData = Some \<lparr>data = Some ''REVG'', mimeType = Some ''image/jpeg''\<rparr>,
                          ptext = None\<rparr>,
                         \<lparr>inlineData = None, ptext = None\<rparr>]\<rparr>,
               finishReason = Some ''STOP''\<rparr>],
      promptFeedback = None\<rparr>"

text \<open>
  Parts of every kind in one sequence: two plain texts, a jpeg image, a part with no
  field, and a captioned image without a media type.
\<close>

definition ex_mixed_parts :: "part list" where
  "ex_mixed_parts =
     [text_part ''a'',
      \<lparr>inlineData = Some \<lparr>data = Some ''REVG'', mimeType = Some ''image/jpeg''\<rparr>, ptext = None\<rparr>,
      \<lparr>inlineData = None, ptext = None\<rparr>,
      ex_captioned,
      text_part ''b'']"

definition ex_mixed :: response where
  "ex_mixed =
     \<lparr>rparts = None,
      candidates = Some [\<lparr>content = Some \<lparr>cparts = Some ex_mixed_parts\<rparr>,
                          finishReason = Some ''STOP''\<rparr>],
      promptFeedback = None\<rparr>"

text \<open>
  The same parts under \<^verbatim>\<open>candidates\<close>, beside a top-level \<^verbatim>\<open>parts\<close> array, a block reason
  and a finish reason.
\<close>

definition ex_text_reply :: response where
  "ex_text_reply =
     \<lparr>rparts = Some [text_part ''top''],
      candidates = Some [\<lparr>content = Some \<lparr>cparts = Some ex_mixed_parts\<rparr>,
                          finishReason = Some ''MAX_TOKENS''\<rparr>,
                         \<lparr>content = Some \<lparr>cparts = Some [text_part ''second'']\<rparr>,
                          finishReason = None\<rparr>],
      promptFeedback = Some \<lparr>blockReason = Some ''SAFETY''\<rparr>\<rparr>"

section \<open>What the text route takes as present\<close>

text \<open>
  \<^verbatim>\<open>prompt && typeof prompt === "string"\<close> and
  \<^verbatim>\<open>Array.isArray(files) && files.length > 0\<close>, as predicates on the body.
\<close>

definition has_prompt :: "body \<Rightarrow> bool" where
  "has_prompt b = (case prompt b of Some (PStr p) \<Rightarrow> p \<noteq> [] | _ \<Rightarrow> False)"

definition has_files :: "body \<Rightarrow> bool" where
  "has_files b = (case files b of Some fs \<Rightarrow> fs \<noteq> [] | None \<Rightarrow> False)"

definition file_list :: "body \<Rightarrow> attachment list" where
  "file_list b = (case files b of Some fs \<Rightarrow> fs | None \<Rightarrow> [])"

section \<open>Failure classification of the image route\<close>






section \<open>Which parts the image route reads\<close>

text \<open>
  Claim C2, as the code has it.  When the top-level \<^verbatim>\<open>parts\<close> array is not empty, the
  image route reads it and whatever \<^verbatim>\<open>candidates\<close> holds does not change the parts read,
  nor the answer when at least one part is classified.  When the top-level array is
  absent or empty, the route reads \<^verbatim>\<open>candidates[0].content.parts\<close>, and every absent
  level there gives the empty sequence.
\<close>

theorem C2_top_level_parts_when_nonempty:
  shows "(\<forall>ps. rparts r = Some ps \<and> ps \<noteq> [] \<longrightarrow>
            image_response_parts r = ps
          \<and> (\<forall>c. image_response_parts (r\<lparr>candidates := c\<rparr>) = ps)
          \<and> (\<forall>c. classify_parts ps [] [] \<noteq> ([], []) \<longrightarrow>
                 image_result (r\<lparr>candidates := c\<rparr>) = image_result r))
       \<and> (rparts r = None \<or> rparts r = Some [] \<longrightarrow>
            image_response_parts r = candidate_parts r)
       \<and> (candidates r = None \<or> candidates r = Some [] \<longrightarrow> candidate_parts r = [])
       \<and> (\<forall>c cs. candidates r = Some (c # cs) \<longrightarrow>
            candidate_parts r =
              (case content c of
                 None \<Rightarrow> []
               | Some ct \<Rightarrow> (case cparts ct of None \<Rightarrow> [] | Some ps \<Rightarrow> ps)))"
proof -
  have a: "image_response_parts r = ps
          \<and> (\<forall>c. image_response_parts (r\<lparr>candidates := c\<rparr>) = ps)
          \<and> (\<forall>c. classify_parts ps [] [] \<noteq> ([], []) \<longrightarrow>
                 image_result (r\<lparr>candidates := c\<rparr>) = image_result r)"
    if h: "rparts r = Some ps \<and> ps \<noteq> []" for ps
  proof -
    have p: "image_response_parts (r\<lparr>candidates := c\<rparr>) = ps" for c
      using h by (simp add: image_response_parts_def)
    have q: "image_response_parts r = ps"
      using h by (simp add: image_response_parts_def)
    have "image_result (r\<lparr>candidates := c\<rparr>) = image_result r"
      if "classify_parts ps [] [] \<noteq> ([], [])" for c
      using that by (auto simp add: image_result_def p q split: prod.splits)
    with p q show ?thesis by blast
  qed
  have b: "image_response_parts r = candidate_parts r"
    if "rparts r = None \<or> rparts r = Some []"
    using that by (auto simp: image_response_parts_def)
  have c: "candidate_parts r = []" if "candidates r = None \<or> candidates r = Some []"
    using that by (auto simp: candidate_parts_def)
  have d: "candidate_parts r =
              (case content c of
                 None \<Rightarrow> []
               | Some ct \<Rightarrow> (case cparts ct of None \<Rightarrow> [] | Some ps \<Rightarrow> ps))"
    if "candidates r = Some (c # cs)" for c cs
    using that by (simp add: candidate_parts_def)
  from a b c d show ?thesis by blast
qed

text \<open>
  The claim as stated fails for a top-level \<^verbatim>\<open>parts\<close> that is set to the empty array:
  the answer then comes from \<^verbatim>\<open>candidates\<close>, and changes when \<^verbatim>\<open>candidates\<close> is removed.
\<close>

theorem C2_counterexample:
  "rparts ex_empty_top = Some []
   \<and> image_result ex_empty_top = JsonImages [] ''hi''
   \<and> image_result (ex_empty_top\<lparr>candidates := None\<rparr>) = JsonError 500 ''No output returned''"
  by (simp add: ex_empty_top_def image_result_def image_response_parts_def candidate_parts_def
      text_part_def part_data_def failure_msg_def block_reason_of_def finish_reason_of_def)

text \<open>C2 at a response that carries both shapes.\<close>

theorem C2_witness:
  "rparts ex_both_shapes = Some [text_part ''new''] \<and> [text_part ''new''] \<noteq> []
   \<and> image_response_parts ex_both_shapes = [text_part ''new'']
   \<and> image_result (ex_both_shapes\<lparr>candidates := None\<rparr>) = image_result ex_both_shapes
   \<and> image_result ex_both_shapes = JsonImages [] ''new''"
proof -
  have h: "rparts ex_both_shapes = Some [text_part ''new''] \<and> [text_part ''new''] \<noteq> []"
    by (simp add: ex_both_shapes_def)
  have n: "classify_parts [text_part ''new''] [] [] \<noteq> ([], [])"
    by (simp add: text_part_def part_data_def)
  have v: "image_result ex_both_shapes = JsonImages [] ''new''"
    by (simp add: ex_both_shapes_def image_result_def image_response_parts_def
        text_part_def part_data_def)
  from C2_top_level_parts_when_nonempty [of ex_both_shapes] h n v show ?thesis by blast
qed

section \<open>The conversation built by the image route\<close>

lemma deref_append_store:
  "valid_refs s rs \<Longrightarrow> deref (s @ ts) rs = deref s rs"
  by (induction rs) (simp_all add: deref_def valid_refs_def nth_append)

lemma deref_snoc: "deref s (rs @ [r]) = deref s rs @ [s ! r]"
  by (simp add: deref_def)

lemma deref_push_turn:
  "valid_refs s c \<Longrightarrow> deref (fst (push_turn s c t)) (snd (push_turn s c t)) = deref s c @ [t]"
  by (simp add: push_turn_def deref_snoc deref_append_store)




lemma image_userParts_images:
  "imgs \<noteq> [] \<Longrightarrow> image_userParts p (Some imgs) = text_part p # map inline_part imgs"
  by (simp add: image_userParts_def)

lemma or_else_cases:
  "or_else x d = (case x of None \<Rightarrow> d | Some m \<Rightarrow> if m = [] then d else m)"
  by (simp add: or_else_def split: option.splits)

text \<open>
  Claim C4.  For \<open>n \<ge> 1\<close> images, the final turn built by the image route has exactly
  \<open>n + 1\<close> parts: the prompt's text part first, then one inline part for each image in the
  order of the input, carrying the image's data and its media type, \<^verbatim>\<open>image/png\<close> when
  the media type is absent (or the empty string).
\<close>

theorem C4_image_build_attachments:
  assumes "images b = Some imgs" and "1 \<le> length imgs"
    and "valid_refs s (copy_history (history b))"
  shows "deref (fst (image_contents s b p)) (snd (image_contents s b p)) =
           deref s (copy_history (history b))
             @ [\<lparr>role = ''user'', parts = text_part p # map inline_part imgs\<rparr>]
       \<and> length (parts (last (deref (fst (image_contents s b p)) (snd (image_contents s b p)))))
           = length imgs + 1
       \<and> parts (last (deref (fst (image_contents s b p)) (snd (image_contents s b p)))) ! 0
           = \<lparr>inlineData = None, ptext = Some p\<rparr>
       \<and> (\<forall>i < length imgs.
            parts (last (deref (fst (image_contents s b p)) (snd (image_contents s b p)))) ! (i + 1)
              = \<lparr>inlineData =
                    Some \<lparr>data = Some (adata (imgs ! i)),
                          mimeType = Some (case amimeType (imgs ! i) of
                                             None \<Rightarrow> ''image/png''
                                           | Some m \<Rightarrow> if m = [] then ''image/png'' else m)\<rparr>,
                  ptext = None\<rparr>)"
proof -
  let ?t = "\<lparr>role = ''user'', parts = text_part p # map inline_part imgs\<rparr>"
  from assms(2) have ne: "imgs \<noteq> []" by auto
  have ic: "image_contents s b p = push_turn s (copy_history (history b)) ?t"
    by (simp add: image_contents_def assms(1) image_userParts_images [OF ne])
  have d: "deref (fst (image_contents s b p)) (snd (image_contents s b p)) =
           deref s (copy_history (history b)) @ [?t]"
    by (simp only: ic deref_push_turn [OF assms(3)])
  have l: "last (deref (fst (image_contents s b p)) (snd (image_contents s b p))) = ?t"
    by (simp add: d)
  have n: "(text_part p # map inline_part imgs) ! (i + 1) =
             \<lparr>inlineData =
                    Some \<lparr>data = Some (adata (imgs ! i)),
                          mimeType = Some (case amimeType (imgs ! i) of
                                             None \<Rightarrow> ''image/png''
                                           | Some m \<Rightarrow> if m = [] then ''image/png'' else m)\<rparr>,
                  ptext = None\<rparr>" if "i < length imgs" for i
    using that by (simp add: inline_part_def or_else_cases)
  show ?thesis
    using d n by (simp add: l text_part_def)
qed

text \<open>C4 on two images, one without and one with a media type.\<close>

theorem C4_witness:
  "images (empty_body\<lparr>prompt := Some (PStr ''cat''), images := Some [ex_png, ex_jpeg], history := Some [0, 1]\<rparr>)
     = Some [ex_png, ex_jpeg]
   \<and> 1 \<le> length [ex_png, ex_jpeg]
   \<and> valid_refs ex_store [0, 1]
   \<and> deref (fst (image_contents ex_store (empty_body\<lparr>prompt := Some (PStr ''cat''), images := Some [ex_png, ex_jpeg], history := Some [0, 1]\<rparr>) ''cat''))
            (snd (image_contents ex_store (empty_body\<lparr>prompt := Some (PStr ''cat''), images := Some [ex_png, ex_jpeg], history := Some [0, 1]\<rparr>) ''cat''))
       = ex_store @ [\<lparr>role = ''user'',
                      parts = [\<lparr>inlineData = None, ptext = Some ''cat''\<rparr>,
                               \<lparr>inlineData = Some \<lparr>data = Some ''QUJD'', mimeType = Some ''image/png''\<rparr>, ptext = None\<rparr>,
                               \<lparr>inlineData = Some \<lparr>data = Some ''REVG'', mimeType = Some ''image/jpeg''\<rparr>, ptext = None\<rparr>]\<rparr>]"
proof -
  let ?b = "empty_body\<lparr>prompt := Some (PStr ''cat''), images := Some [ex_png, ex_jpeg], history := Some [0, 1]\<rparr>"
  have h1: "images ?b = Some [ex_png, ex_jpeg]" by simp
  have h2: "1 \<le> length [ex_png, ex_jpeg]" by simp
  have h3: "valid_refs ex_store (copy_history (history ?b))"
    by (simp add: copy_history_def valid_refs_def ex_store_def)
  from C4_image_build_attachments [OF h1 h2 h3, of "''cat''"]
  show ?thesis
    using h3
    by (simp add: copy_history_def deref_def ex_store_def text_part_def inline_part_def
        or_else_def ex_png_def ex_jpeg_def)
qed

section \<open>Classification of the response parts\<close>

lemma map_filter_app: "List.map_filter f (xs @ ys) = List.map_filter f xs @ List.map_filter f ys"
  by (simp add: List.map_filter_def)

lemma classify_parts_acc:
  "classify_parts ps im tx =
     (im @ List.map_filter image_of_part ps, tx @ List.map_filter text_of_part ps)"
proof (induction ps arbitrary: im tx)
  case Nil
  show ?case by (simp add:)
next
  case (Cons p ps)
  show ?case
  proof (cases "truthy (part_data p)")
    case (Some d)
    then show ?thesis
      by (simp add: Cons.IH image_of_part_def text_of_part_def)
  next
    case None
    then show ?thesis
      by (cases "truthy (ptext p)")
         (simp_all add: Cons.IH image_of_part_def text_of_part_def)
  qed
qed

lemma classify_parts_eq:
  "classify_parts ps [] [] = (List.map_filter image_of_part ps, List.map_filter text_of_part ps)"
  by (simp add: classify_parts_acc)

lemma image_result_ok:
  "classify_parts (image_response_parts r) [] [] \<noteq> ([], []) \<Longrightarrow>
   image_result r =
     JsonImages (List.map_filter image_of_part (image_response_parts r))
                (join_nl (List.map_filter text_of_part (image_response_parts r)))"
  by (auto simp add: image_result_def classify_parts_eq)

lemma join_nl_concat:
  "join_nl (t # ts) = t @ concat (map (\<lambda>y. CHR 0x0A # y) ts)"
  by (induction ts arbitrary: t) simp_all

text \<open>
  Claim C8.  When the loop of the image route classifies at least one part, the route
  answers with the images of the parts that carry inline data, in the provider's order,
  each with its media type or \<^verbatim>\<open>image/png\<close> when it has none, and with the texts of the
  remaining text parts, in the provider's order, joined by newlines: the first text,
  then each further text after one newline character.  A response of one text part
  \<^verbatim>\<open>hello\<close> and one inline image of type \<^verbatim>\<open>image/jpeg\<close> gives that one image and the text
  \<^verbatim>\<open>hello\<close>.  A part with neither inline data nor text changes nothing.
\<close>

theorem C8_images_and_joined_text:
  assumes "classify_parts (image_response_parts r) [] [] \<noteq> ([], [])"
  shows "image_result r =
           JsonImages (List.map_filter image_of_part (image_response_parts r))
                      (join_nl (List.map_filter text_of_part (image_response_parts r)))
       \<and> (\<forall>d. d \<noteq> [] \<and>
              (image_response_parts r =
                 [\<lparr>inlineData = None, ptext = Some ''hello''\<rparr>,
                  \<lparr>inlineData = Some \<lparr>data = Some d, mimeType = Some ''image/jpeg''\<rparr>, ptext = None\<rparr>]
               \<or> image_response_parts r =
                 [\<lparr>inlineData = Some \<lparr>data = Some d, mimeType = Some ''image/jpeg''\<rparr>, ptext = None\<rparr>,
                  \<lparr>inlineData = None, ptext = Some ''hello''\<rparr>]) \<longrightarrow>
              image_result r = JsonImages [\<lparr>odata = d, omimeType = ''image/jpeg''\<rparr>] ''hello'')
       \<and> (\<forall>ps p qs. image_response_parts r = ps @ p # qs
              \<and> truthy (part_data p) = None \<and> truthy (ptext p) = None \<longrightarrow>
              image_result r =
                JsonImages (List.map_filter image_of_part (ps @ qs))
                           (join_nl (List.map_filter text_of_part (ps @ qs))))
       \<and> (\<forall>p d. truthy (part_data p) = Some d \<and> part_mimeType p = None \<longrightarrow>
              image_of_part p = Some \<lparr>odata = d, omimeType = ''image/png''\<rparr>)
       \<and> (List.map_filter text_of_part (image_response_parts r) = [] \<longrightarrow>
              image_result r =
                JsonImages (List.map_filter image_of_part (image_response_parts r)) [])
       \<and> (\<forall>t ts. List.map_filter text_of_part (image_response_parts r) = t # ts \<longrightarrow>
              image_result r =
                JsonImages (List.map_filter image_of_part (image_response_parts r))
                           (t @ concat (map (\<lambda>y. CHR 0x0A # y) ts)))
       \<and> (\<forall>x y z. x \<noteq> [] \<and> y \<noteq> [] \<and> z \<noteq> [] \<and>
              image_response_parts r =
                [\<lparr>inlineData = None, ptext = Some x\<rparr>,
                 \<lparr>inlineData = None, ptext = Some y\<rparr>,
                 \<lparr>inlineData = None, ptext = Some z\<rparr>] \<longrightarrow>
              image_result r = JsonImages [] (x @ [CHR 0x0A] @ y @ [CHR 0x0A] @ z))"
proof -
  note a = image_result_ok [OF assms]
  have m: "image_of_part p = Some \<lparr>odata = d, omimeType = ''image/png''\<rparr>"
    if "truthy (part_data p) = Some d \<and> part_mimeType p = None" for p d
    using that by (simp add: image_of_part_def or_else_def)
  have b: "image_result r = JsonImages [\<lparr>odata = d, omimeType = ''image/jpeg''\<rparr>] ''hello''"
    if "d \<noteq> [] \<and>
              (image_response_parts r =
                 [\<lparr>inlineData = None, ptext = Some ''hello''\<rparr>,
                  \<lparr>inlineData = Some \<lparr>data = Some d, mimeType = Some ''image/jpeg''\<rparr>, ptext = None\<rparr>]
               \<or> image_response_parts r =
                 [\<lparr>inlineData = Some \<lparr>data = Some d, mimeType = Some ''image/jpeg''\<rparr>, ptext = None\<rparr>,
                  \<lparr>inlineData = None, ptext = Some ''hello''\<rparr>])" for d
    using that
    by (auto simp add: a image_of_part_def text_of_part_def part_data_def
        part_mimeType_def or_else_def)
  have c: "image_result r =
                JsonImages (List.map_filter image_of_part (ps @ qs))
                           (join_nl (List.map_filter text_of_part (ps @ qs)))"
    if "image_response_parts r = ps @ p # qs
              \<and> truthy (part_data p) = None \<and> truthy (ptext p) = None" for ps p qs
    using that
    by (simp add: a map_filter_app image_of_part_def text_of_part_def)
  have n: "image_result r =
             JsonImages (List.map_filter image_of_part (image_response_parts r)) []"
    if "List.map_filter text_of_part (image_response_parts r) = []"
    using a that by simp
  have j: "image_result r =
             JsonImages (List.map_filter image_of_part (image_response_parts r))
                        (t @ concat (map (\<lambda>y. CHR 0x0A # y) ts))"
    if "List.map_filter text_of_part (image_response_parts r) = t # ts" for t ts
    using a that by (simp only: join_nl_concat)
  have k: "image_result r = JsonImages [] (x @ [CHR 0x0A] @ y @ [CHR 0x0A] @ z)"
    if "x \<noteq> [] \<and> y \<noteq> [] \<and> z \<noteq> [] \<and>
              image_response_parts r =
                [\<lparr>inlineData = None, ptext = Some x\<rparr>,
                 \<lparr>inlineData = None, ptext = Some y\<rparr>,
                 \<lparr>inlineData = None, ptext = Some z\<rparr>]" for x y z
    using that by (simp add: a image_of_part_def text_of_part_def part_data_def)
  from a b c m n j k show ?thesis by blast
qed

text \<open>
  C8 on a response with a text part, a jpeg part and an empty part, and on one with two
  texts and two images.
\<close>

theorem C8_witness:
  "classify_parts (image_response_parts ex_hello_jpeg) [] [] \<noteq> ([], [])
   \<and> image_result ex_hello_jpeg = JsonImages [\<lparr>odata = ''REVG'', omimeType = ''image/jpeg''\<rparr>] ''hello''
   \<and> classify_parts (image_response_parts ex_mixed) [] [] \<noteq> ([], [])
   \<and> image_result ex_mixed =
       JsonImages [\<lparr>odata = ''REVG'', omimeType = ''image/jpeg''\<rparr>,
                   \<lparr>odata = ''QUJD'', omimeType = ''image/png''\<rparr>]
                  [CHR ''a'', CHR 0x0A, CHR ''b'']"
proof -
  have p: "image_response_parts ex_hello_jpeg =
             [text_part ''hello''] @ \<lparr>inlineData = Some \<lparr>data = Some ''REVG'', mimeType = Some ''image/jpeg''\<rparr>,
                          ptext = None\<rparr> # [\<lparr>inlineData = None, ptext = None\<rparr>]"
    by (simp add: ex_hello_jpeg_def image_response_parts_def candidate_parts_def)
  have h: "classify_parts (image_response_parts ex_hello_jpeg) [] [] \<noteq> ([], [])"
    by (simp add: p text_part_def part_data_def)
  have q: "image_response_parts ex_mixed = ex_mixed_parts"
    by (simp add: ex_mixed_def image_response_parts_def candidate_parts_def)
  have g: "classify_parts (image_response_parts ex_mixed) [] [] \<noteq> ([], [])"
    by (simp add: q classify_parts_eq ex_mixed_parts_def ex_captioned_def text_of_part_def
        part_data_def text_part_def)
  have t: "List.map_filter text_of_part (image_response_parts ex_mixed) = ''a'' # [''b'']"
    by (simp add: q ex_mixed_parts_def ex_captioned_def text_of_part_def part_data_def
        text_part_def)
  have i: "List.map_filter image_of_part (image_response_parts ex_mixed) =
             [\<lparr>odata = ''REVG'', omimeType = ''image/jpeg''\<rparr>,
              \<lparr>odata = ''QUJD'', omimeType = ''image/png''\<rparr>]"
    by (simp add: q ex_mixed_parts_def ex_captioned_def image_of_part_def part_data_def
        part_mimeType_def or_else_def text_part_def)
  have one: "image_result ex_hello_jpeg =
               JsonImages [\<lparr>odata = ''REVG'', omimeType = ''image/jpeg''\<rparr>] ''hello''"
    using C8_images_and_joined_text [OF h]
    by (simp add: p image_of_part_def text_of_part_def part_data_def
        part_mimeType_def or_else_def text_part_def)
  have two: "image_result ex_mixed =
       JsonImages [\<lparr>odata = ''REVG'', omimeType = ''image/jpeg''\<rparr>,
                   \<lparr>odata = ''QUJD'', omimeType = ''image/png''\<rparr>]
                  [CHR ''a'', CHR 0x0A, CHR ''b'']"
  proof -
    from C8_images_and_joined_text [OF g] t
    have "image_result ex_mixed =
            JsonImages (List.map_filter image_of_part (image_response_parts ex_mixed))
                       (''a'' @ concat (map (\<lambda>y. CHR 0x0A # y) [''b'']))"
      by blast
    then show ?thesis by (simp add: i)
  qed
  from h g one two show ?thesis by blast
qed

text \<open>
  Claim C10.  A part whose inline data is non-empty is classified as an image only: it
  adds one image and no text, whatever its text field holds.
\<close>

theorem C10_inline_data_wins:
  assumes "truthy (part_data p) = Some d"
  shows "classify_parts (ps @ p # qs) [] [] =
           (fst (classify_parts ps [] [])
              @ \<lparr>odata = d, omimeType = or_else (part_mimeType p) ''image/png''\<rparr>
              # fst (classify_parts qs [] []),
            snd (classify_parts ps [] []) @ snd (classify_parts qs [] []))
       \<and> snd (classify_parts (ps @ p # qs) [] []) = snd (classify_parts (ps @ qs) [] [])
       \<and> (\<forall>t. classify_parts (ps @ p\<lparr>ptext := t\<rparr> # qs) [] [] = classify_parts (ps @ p # qs) [] [])"
proof -
  have i: "image_of_part p = Some \<lparr>odata = d, omimeType = or_else (part_mimeType p) ''image/png''\<rparr>"
    using assms by (simp add: image_of_part_def)
  have t: "text_of_part p = None"
    using assms by (simp add: text_of_part_def)
  have pd: "part_data (p\<lparr>ptext := x\<rparr>) = part_data p" for x
    by (simp add: part_data_def)
  have pm: "part_mimeType (p\<lparr>ptext := x\<rparr>) = part_mimeType p" for x
    by (simp add: part_mimeType_def)
  have i': "image_of_part (p\<lparr>ptext := x\<rparr>) = image_of_part p" for x
    by (simp add: image_of_part_def pd pm cong: option.case_cong)
  have t': "text_of_part (p\<lparr>ptext := x\<rparr>) = None" for x
    using assms by (simp add: text_of_part_def pd)
  show ?thesis
    by (simp add: classify_parts_eq map_filter_app i t i' t')
qed

text \<open>C10 on a captioned image between two text parts.\<close>

theorem C10_witness:
  "truthy (part_data ex_captioned) = Some ''QUJD''
   \<and> classify_parts ([text_part ''a''] @ ex_captioned # [text_part ''b'']) [] [] =
       ([\<lparr>odata = ''QUJD'', omimeType = ''image/png''\<rparr>], [''a'', ''b''])"
proof -
  have h: "truthy (part_data ex_captioned) = Some ''QUJD''"
    by (simp add: ex_captioned_def part_data_def)
  from C10_inline_data_wins [OF h, of "[text_part ''a'']" "[text_part ''b'']"] h
  show ?thesis
    by (simp add: text_part_def part_data_def part_mimeType_def or_else_def ex_captioned_def)
qed

section \<open>The answers of the text route\<close>

lemma POST_text_cases:
  "POST_text e ai prov s b =
     (if snd (text_contents s b) = [] then JsonError 400 ''Provide a prompt or files''
      else case fst (getAI e ai) of
             Inl msg \<Rightarrow> catch_error msg
           | Inr cl \<Rightarrow>
               (case prov cl \<lparr>model = TEXT_MODEL e,
                              contents = deref (fst (text_contents s b)) (snd (text_contents s b)),
                              gconfig = None\<rparr> of
                  Inl msg \<Rightarrow> catch_error msg
                | Inr r \<Rightarrow> JsonText (text_result r)))"
  by (simp add: POST_text_def split_beta)

lemma text_result_map_filter:
  "map (\<lambda>p. or_else (ptext p) []) (filter (\<lambda>p. truthy (ptext p) \<noteq> None) ps) =
   List.map_filter (\<lambda>p. truthy (ptext p)) ps"
  by (induction ps) (auto simp: or_else_def)

lemma text_result_eq:
  "text_result r = join_nl (List.map_filter (\<lambda>p. truthy (ptext p)) (candidate_parts r))"
  by (simp only: text_result_def text_result_map_filter)

lemma map_filter_all_None:
  "list_all (\<lambda>p. f p = None) ps \<Longrightarrow> List.map_filter f ps = []"
  by (induction ps) simp_all

text \<open>
  Claim C9.  When the text route gets a response from the provider, it answers 200
  with the truthy texts of \<^verbatim>\<open>candidates[0].content.parts\<close>, in order, joined by newlines:
  the first text, then each further text after one newline character.  A part with
  inline data contributes its text like any other part.  The answer depends on nothing
  else in the response (no top-level parts, no block reason, no finish reason, no
  further candidate).  When \<^verbatim>\<open>candidates\<close>, its first element's \<^verbatim>\<open>content\<close> or the \<^verbatim>\<open>parts\<close>
  there is absent, or no part has a usable text, the answer is the empty text; the
  answer is never an error and never carries images.
\<close>

theorem C9_text_route_only_joins_text:
  assumes "snd (text_contents s b) \<noteq> []"
    and "fst (getAI e ai) = Inr cl"
    and "prov cl \<lparr>model = TEXT_MODEL e,
                  contents = deref (fst (text_contents s b)) (snd (text_contents s b)),
                  gconfig = None\<rparr> = Inr r"
  shows "POST_text e ai prov s b =
           JsonText (join_nl (List.map_filter (\<lambda>p. truthy (ptext p)) (candidate_parts r)))
       \<and> (list_all (\<lambda>p. truthy (ptext p) = None) (candidate_parts r) \<longrightarrow>
            POST_text e ai prov s b = JsonText [])
       \<and> (\<forall>r'. candidate_parts r' = candidate_parts r \<longrightarrow> text_result r' = text_result r)
       \<and> (candidates r = None \<or> candidates r = Some [] \<longrightarrow>
            POST_text e ai prov s b = JsonText [])
       \<and> (\<forall>c cs. candidates r = Some (c # cs)
              \<and> (content c = None \<or> content c = Some \<lparr>cparts = None\<rparr>) \<longrightarrow>
            POST_text e ai prov s b = JsonText [])
       \<and> (\<forall>c cs ps. candidates r = Some (c # cs) \<and> content c = Some \<lparr>cparts = Some ps\<rparr> \<longrightarrow>
            (List.map_filter (\<lambda>p. truthy (ptext p)) ps = [] \<longrightarrow>
               POST_text e ai prov s b = JsonText [])
          \<and> (\<forall>t ts. List.map_filter (\<lambda>p. truthy (ptext p)) ps = t # ts \<longrightarrow>
               POST_text e ai prov s b = JsonText (t @ concat (map (\<lambda>y. CHR 0x0A # y) ts))))
       \<and> (\<forall>c cs x y z i. x \<noteq> [] \<and> y \<noteq> [] \<and> z \<noteq> [] \<and> candidates r = Some (c # cs)
              \<and> content c = Some \<lparr>cparts = Some [\<lparr>inlineData = None, ptext = Some x\<rparr>,
                                                  \<lparr>inlineData = i, ptext = Some y\<rparr>,
                                                  \<lparr>inlineData = None, ptext = None\<rparr>,
                                                  \<lparr>inlineData = None, ptext = Some z\<rparr>]\<rparr> \<longrightarrow>
            POST_text e ai prov s b = JsonText (x @ [CHR 0x0A] @ y @ [CHR 0x0A] @ z))
       \<and> (\<forall>n m. POST_text e ai prov s b \<noteq> JsonError n m)
       \<and> (\<forall>is t. POST_text e ai prov s b \<noteq> JsonImages is t)"
proof -
  let ?res = "POST_text e ai prov s b"
  have a: "?res = JsonText (text_result r)"
    using assms by (simp add: POST_text_cases)
  have a': "?res = JsonText (join_nl (List.map_filter (\<lambda>p. truthy (ptext p)) (candidate_parts r)))"
    using a by (simp only: text_result_eq)
  have b: "?res = JsonText []"
    if "list_all (\<lambda>p. truthy (ptext p) = None) (candidate_parts r)"
    using a map_filter_all_None [OF that] by (simp add: text_result_eq)
  have c: "text_result r' = text_result r" if "candidate_parts r' = candidate_parts r" for r'
    using that by (simp add: text_result_def)
  have d: "?res = JsonText []" if "candidates r = None \<or> candidates r = Some []"
  proof -
    from that have "candidate_parts r = []" by (auto simp: candidate_parts_def)
    then show ?thesis using a' by simp
  qed
  have f: "?res = JsonText []"
    if "candidates r = Some (c # cs) \<and> (content c = None \<or> content c = Some \<lparr>cparts = None\<rparr>)"
    for c cs
  proof -
    from that have "candidate_parts r = []" by (auto simp: candidate_parts_def)
    then show ?thesis using a' by simp
  qed
  have g: "(List.map_filter (\<lambda>p. truthy (ptext p)) ps = [] \<longrightarrow> ?res = JsonText [])
          \<and> (\<forall>t ts. List.map_filter (\<lambda>p. truthy (ptext p)) ps = t # ts \<longrightarrow>
               ?res = JsonText (t @ concat (map (\<lambda>y. CHR 0x0A # y) ts)))"
    if "candidates r = Some (c # cs) \<and> content c = Some \<lparr>cparts = Some ps\<rparr>" for c cs ps
  proof -
    from that have p: "candidate_parts r = ps" by (simp add: candidate_parts_def)
    have "?res = JsonText []" if "List.map_filter (\<lambda>p. truthy (ptext p)) ps = []"
      using a' that by (simp add: p)
    moreover have "?res = JsonText (t @ concat (map (\<lambda>y. CHR 0x0A # y) ts))"
      if "List.map_filter (\<lambda>p. truthy (ptext p)) ps = t # ts" for t ts
      using a' that by (simp only: p join_nl_concat)
    ultimately show ?thesis by blast
  qed
  have h: "?res = JsonText (x @ [CHR 0x0A] @ y @ [CHR 0x0A] @ z)"
    if "x \<noteq> [] \<and> y \<noteq> [] \<and> z \<noteq> [] \<and> candidates r = Some (c # cs)
              \<and> content c = Some \<lparr>cparts = Some [\<lparr>inlineData = None, ptext = Some x\<rparr>,
                                                  \<lparr>inlineData = i, ptext = Some y\<rparr>,
                                                  \<lparr>inlineData = None, ptext = None\<rparr>,
                                                  \<lparr>inlineData = None, ptext = Some z\<rparr>]\<rparr>"
    for c cs x y z i
  proof -
    from that have "candidate_parts r = [\<lparr>inlineData = None, ptext = Some x\<rparr>,
                                                  \<lparr>inlineData = i, ptext = Some y\<rparr>,
                                                  \<lparr>inlineData = None, ptext = None\<rparr>,
                                                  \<lparr>inlineData = None, ptext = Some z\<rparr>]"
      by (simp add: candidate_parts_def)
    then show ?thesis using a' that by simp
  qed
  have k: "\<forall>n m. ?res \<noteq> JsonError n m" using a by simp
  have l: "\<forall>is t. ?res \<noteq> JsonImages is t" using a by simp
  from a' b c d f g h k l show ?thesis by blast
qed

text \<open>
  C9 on a response that the image route would report as blocked, and on one that holds
  three usable texts under \<^verbatim>\<open>candidates\<close> beside a top-level \<^verbatim>\<open>parts\<close> array and a block
  reason.
\<close>

theorem C9_witness:
  "snd (text_contents [] (empty_body\<lparr>prompt := Some (PStr ''hi'')\<rparr>)) \<noteq> []
   \<and> fst (getAI ex_env None) = Inr ''k''
   \<and> block_reason_of ex_blocked = Some ''SAFETY''
   \<and> POST_text ex_env None (const_provider ex_blocked) [] (empty_body\<lparr>prompt := Some (PStr ''hi'')\<rparr>)
       = JsonText []
   \<and> block_reason_of ex_text_reply = Some ''SAFETY''
   \<and> rparts ex_text_reply = Some [text_part ''top'']
   \<and> POST_text ex_env None (const_provider ex_text_reply) [] (empty_body\<lparr>prompt := Some (PStr ''hi'')\<rparr>)
       = JsonText (''a'' @ [CHR 0x0A] @ ''caption'' @ [CHR 0x0A] @ ''b'')"
proof -
  let ?b = "empty_body\<lparr>prompt := Some (PStr ''hi'')\<rparr>"
  have h1: "snd (text_contents [] ?b) \<noteq> []"
    by (simp add: text_contents_def text_push_prompt_def copy_history_def push_turn_def
        empty_body_def)
  have h2: "fst (getAI ex_env None) = Inr ''k''" by (simp add: getAI_def ex_env_def)
  have h3: "const_provider ex_blocked ''k''
              \<lparr>model = TEXT_MODEL ex_env,
               contents = deref (fst (text_contents [] ?b)) (snd (text_contents [] ?b)),
               gconfig = None\<rparr> = Inr ex_blocked"
    by (simp add: const_provider_def)
  have h3': "const_provider ex_text_reply ''k''
              \<lparr>model = TEXT_MODEL ex_env,
               contents = deref (fst (text_contents [] ?b)) (snd (text_contents [] ?b)),
               gconfig = None\<rparr> = Inr ex_text_reply"
    by (simp add: const_provider_def)
  have k: "block_reason_of ex_blocked = Some ''SAFETY''"
    by (simp add: block_reason_of_def ex_blocked_def)
  have k': "block_reason_of ex_text_reply = Some ''SAFETY''"
    by (simp add: block_reason_of_def ex_text_reply_def)
  have t: "rparts ex_text_reply = Some [text_part ''top'']"
    by (simp add: ex_text_reply_def)
  have one: "POST_text ex_env None (const_provider ex_blocked) [] ?b = JsonText []"
    using C9_text_route_only_joins_text
            [where prov = "const_provider ex_blocked", OF h1 h2 h3, THEN conjunct1]
    by (simp add: candidate_parts_def ex_blocked_def)
  have two: "POST_text ex_env None (const_provider ex_text_reply) [] ?b
               = JsonText (''a'' @ [CHR 0x0A] @ ''caption'' @ [CHR 0x0A] @ ''b'')"
    using C9_text_route_only_joins_text
            [where prov = "const_provider ex_text_reply", OF h1 h2 h3', THEN conjunct1]
    by (simp add: candidate_parts_def ex_text_reply_def ex_mixed_parts_def ex_captioned_def
        text_part_def)
  from h1 h2 k k' t one two show ?thesis by simp
qed

lemma snd_attach_files_ne: "snd (attach_files s c ps) = [] \<longleftrightarrow> False"
  by (auto simp: attach_files_def push_turn_def Let_def)

lemma snd_text_push_prompt:
  "snd (text_push_prompt s c pr) =
     (case pr of Some (PStr p) \<Rightarrow> if p \<noteq> [] then c @ [length s] else c | _ \<Rightarrow> c)"
  by (simp add: text_push_prompt_def push_turn_def split: option.splits prompt_val.splits)

lemma text_contents_empty_iff:
  "snd (text_contents s b) = [] \<longleftrightarrow>
     \<not> has_prompt b \<and> \<not> has_files b \<and> copy_history (history b) = []"
  by (auto simp: text_contents_def split_beta snd_attach_files_ne snd_text_push_prompt
      has_prompt_def has_files_def split: option.splits prompt_val.splits)

lemma catch_error_not_400: "catch_error msg \<noteq> JsonError 400 m"
  by (simp add: catch_error_def)

lemma POST_text_400_iff:
  "POST_text e ai prov s b = JsonError 400 m \<longleftrightarrow>
     snd (text_contents s b) = [] \<and> m = ''Provide a prompt or files''"
  by (auto simp: POST_text_cases catch_error_not_400 split: sum.splits)

lemma text_contents_history_only:
  "\<not> has_prompt b \<Longrightarrow> \<not> has_files b \<Longrightarrow> text_contents s b = (s, copy_history (history b))"
  by (auto simp: text_contents_def text_push_prompt_def has_prompt_def has_files_def
      split: option.splits prompt_val.splits)

text \<open>
  Claim C5, as the code has it.  The text route answers 400 exactly when the
  conversation it assembled is empty: the body has no non-empty string prompt, no
  non-empty files array and no non-empty history array.  With a prompt or files it never
  answers 400, whatever the history is.  With neither, but a non-empty history, it does
  not answer 400 either: it sends the history to the provider.
\<close>

theorem C5_text_route_400:
  shows "(POST_text e ai prov s b = JsonError 400 ''Provide a prompt or files'')
           = (\<not> has_prompt b \<and> \<not> has_files b \<and> copy_history (history b) = [])
       \<and> (has_prompt b \<or> has_files b \<longrightarrow> (\<forall>m. POST_text e ai prov s b \<noteq> JsonError 400 m))
       \<and> (\<not> has_prompt b \<and> \<not> has_files b \<and> copy_history (history b) \<noteq> [] \<longrightarrow>
            (\<forall>m. POST_text e ai prov s b \<noteq> JsonError 400 m)
          \<and> POST_text e ai prov s b =
              (case fst (getAI e ai) of
                 Inl msg \<Rightarrow> catch_error msg
               | Inr cl \<Rightarrow>
                   (case prov cl \<lparr>model = TEXT_MODEL e,
                                  contents = deref s (copy_history (history b)),
                                  gconfig = None\<rparr> of
                      Inl msg \<Rightarrow> catch_error msg
                    | Inr r \<Rightarrow> JsonText (text_result r))))"
proof -
  have a: "(POST_text e ai prov s b = JsonError 400 ''Provide a prompt or files'')
           = (\<not> has_prompt b \<and> \<not> has_files b \<and> copy_history (history b) = [])"
    by (simp add: POST_text_400_iff text_contents_empty_iff)
  have b: "\<forall>m. POST_text e ai prov s b \<noteq> JsonError 400 m" if "has_prompt b \<or> has_files b"
    using that by (auto simp: POST_text_400_iff text_contents_empty_iff)
  have c: "(\<forall>m. POST_text e ai prov s b \<noteq> JsonError 400 m)
          \<and> POST_text e ai prov s b =
              (case fst (getAI e ai) of
                 Inl msg \<Rightarrow> catch_error msg
               | Inr cl \<Rightarrow>
                   (case prov cl \<lparr>model = TEXT_MODEL e,
                                  contents = deref s (copy_history (history b)),
                                  gconfig = None\<rparr> of
                      Inl msg \<Rightarrow> catch_error msg
                    | Inr r \<Rightarrow> JsonText (text_result r)))"
    if h: "\<not> has_prompt b \<and> \<not> has_files b \<and> copy_history (history b) \<noteq> []"
  proof -
    from h have t: "text_contents s b = (s, copy_history (history b))"
      by (simp add: text_contents_history_only)
    from h show ?thesis
      by (simp add: POST_text_400_iff text_contents_empty_iff)
         (simp add: POST_text_cases t cong: sum.case_cong)
  qed
  from a b c show ?thesis by blast
qed

text \<open>
  The claim as stated fails for a body that holds only a history: no prompt, no files,
  and the answer is the provider's text.
\<close>

theorem C5_counterexample:
  "prompt (empty_body\<lparr>history := Some [0, 1]\<rparr>) = None
   \<and> files (empty_body\<lparr>history := Some [0, 1]\<rparr>) = None
   \<and> POST_text ex_env None (const_provider ex_reply) ex_store (empty_body\<lparr>history := Some [0, 1]\<rparr>)
       = JsonText ''ok''"
  by (simp add: empty_body_def POST_text_def text_contents_def text_push_prompt_def
      copy_history_def getAI_def ex_env_def const_provider_def text_result_def ex_reply_def
      candidate_parts_def text_part_def or_else_def)

text \<open>C5 on a body with a prompt and on the empty body.\<close>

theorem C5_witness:
  "has_prompt (empty_body\<lparr>prompt := Some (PStr ''hi'')\<rparr>)
   \<and> POST_text ex_env None (const_provider ex_reply) [] (empty_body\<lparr>prompt := Some (PStr ''hi'')\<rparr>)
       \<noteq> JsonError 400 ''Provide a prompt or files''
   \<and> \<not> has_prompt empty_body \<and> \<not> has_files empty_body \<and> copy_history (history empty_body) = []
   \<and> POST_text ex_env None (const_provider ex_reply) [] empty_body
       = JsonError 400 ''Provide a prompt or files''"
proof -
  have h: "has_prompt (empty_body\<lparr>prompt := Some (PStr ''hi'')\<rparr>)"
    by (simp add: has_prompt_def)
  have n: "\<not> has_prompt empty_body \<and> \<not> has_files empty_body \<and> copy_history (history empty_body) = []"
    by (simp add: has_prompt_def has_files_def copy_history_def empty_body_def)
  from C5_text_route_400 [of ex_env None "const_provider ex_reply" "[]" "empty_body\<lparr>prompt := Some (PStr ''hi'')\<rparr>"]
       C5_text_route_400 [of ex_env None "const_provider ex_reply" "[]" empty_body] h n
  show ?thesis by blast
qed

section \<open>The turns of the history after a build\<close>

lemma push_turn_keeps: "r < length s \<Longrightarrow> fst (push_turn s c t) ! r = s ! r"
  by (simp add: push_turn_def nth_append)

lemma text_push_prompt_keeps:
  "r < length s \<Longrightarrow> fst (text_push_prompt s c pr) ! r = s ! r"
  by (simp add: text_push_prompt_def push_turn_keeps split: option.splits prompt_val.splits)

lemma text_push_prompt_has:
  "has_prompt b \<Longrightarrow> \<exists>p. p \<noteq> [] \<and>
     text_push_prompt s c (prompt b) = (s @ [\<lparr>role = ''user'', parts = [text_part p]\<rparr>], c @ [length s])
     \<and> prompt b = Some (PStr p)"
  by (auto simp: has_prompt_def text_push_prompt_def push_turn_def
      split: option.splits prompt_val.splits)

lemma text_push_prompt_hasnt:
  "\<not> has_prompt b \<Longrightarrow> text_push_prompt s c (prompt b) = (s, c)"
  by (auto simp: has_prompt_def text_push_prompt_def split: option.splits prompt_val.splits)

lemma attach_files_nth:
  "r < length s \<Longrightarrow>
   fst (attach_files s c ps) ! r =
     (if c \<noteq> [] \<and> r = last c \<and> role (s ! r) = ''user''
      then (s ! r)\<lparr>parts := parts (s ! r) @ ps\<rparr> else s ! r)"
  by (auto simp: attach_files_def Let_def push_turn_keeps last_conv_nth)

lemma text_contents_files:
  "has_files b \<Longrightarrow>
   text_contents s b =
     attach_files (fst (text_push_prompt s (copy_history (history b)) (prompt b)))
                  (snd (text_push_prompt s (copy_history (history b)) (prompt b)))
                  (map inline_part (file_list b))"
  by (auto simp: text_contents_def has_files_def file_list_def split_beta split: option.splits)

lemma text_contents_no_files:
  "\<not> has_files b \<Longrightarrow>
   text_contents s b = text_push_prompt s (copy_history (history b)) (prompt b)"
  by (auto simp: text_contents_def has_files_def split_beta split: option.splits)

lemma text_contents_nth:
  assumes "r < length s"
  shows "fst (text_contents s b) ! r =
     (if \<not> has_prompt b \<and> has_files b \<and> copy_history (history b) \<noteq> []
         \<and> r = last (copy_history (history b)) \<and> role (s ! r) = ''user''
      then (s ! r)\<lparr>parts := parts (s ! r) @ map inline_part (file_list b)\<rparr>
      else s ! r)"
proof (cases "has_files b")
  case False
  then show ?thesis
    using assms by (simp add: text_contents_no_files text_push_prompt_keeps)
next
  case files: True
  show ?thesis
  proof (cases "has_prompt b")
    case False
    then show ?thesis
      using assms files
      by (simp add: text_contents_files text_push_prompt_hasnt attach_files_nth)
  next
    case True
    from text_push_prompt_has [OF True, of s "copy_history (history b)"]
    obtain p where p: "text_push_prompt s (copy_history (history b)) (prompt b) =
        (s @ [\<lparr>role = ''user'', parts = [text_part p]\<rparr>], copy_history (history b) @ [length s])"
      by blast
    have "r < length (s @ [\<lparr>role = ''user'', parts = [text_part p]\<rparr>])"
      using assms by simp
    from attach_files_nth [OF this] assms True files show ?thesis
      by (simp add: text_contents_files p nth_append)
  qed
qed

lemma image_contents_appends:
  "image_contents s b p =
     (s @ [\<lparr>role = ''user'',
            parts = text_part p # map inline_part (case images b of Some xs \<Rightarrow> xs | None \<Rightarrow> [])\<rparr>],
      copy_history (history b) @ [length s])"
  by (auto simp: image_contents_def image_userParts_def push_turn_def Let_def
      split: option.splits)

lemma text_contents_prompt_appends:
  assumes "prompt b = Some (PStr q)" and "q \<noteq> []"
  shows "text_contents s b =
     (s @ [\<lparr>role = ''user'', parts = text_part q # map inline_part (file_list b)\<rparr>],
      copy_history (history b) @ [length s])"
proof -
  let ?t = "\<lparr>role = ''user'', parts = [text_part q]\<rparr>"
  have pp: "text_push_prompt s (copy_history (history b)) (prompt b) =
              (s @ [?t], copy_history (history b) @ [length s])"
    using assms by (simp add: text_push_prompt_def push_turn_def)
  show ?thesis
  proof (cases "has_files b")
    case False
    then have "file_list b = []"
      by (auto simp: has_files_def file_list_def split: option.splits)
    with False show ?thesis
      by (simp add: text_contents_no_files pp)
  next
    case True
    then show ?thesis
      by (simp add: text_contents_files pp attach_files_def)
  qed
qed

lemma text_contents_files_only:
  assumes "\<not> has_prompt b" and "has_files b"
  shows "text_contents s b =
     (if copy_history (history b) \<noteq> [] \<and> role (s ! last (copy_history (history b))) = ''user''
      then (s[last (copy_history (history b)) :=
                (s ! last (copy_history (history b)))
                  \<lparr>parts := parts (s ! last (copy_history (history b)))
                             @ map inline_part (file_list b)\<rparr>],
            copy_history (history b))
      else (s @ [\<lparr>role = ''user'', parts = map inline_part (file_list b)\<rparr>],
            copy_history (history b) @ [length s]))"
  using assms
  by (auto simp: text_contents_files text_push_prompt_hasnt attach_files_def Let_def
      push_turn_def last_conv_nth)

text \<open>
  Claim C6, as the code has it.  The build of the image route leaves every turn object
  that existed before the call as it was, and appends one new turn object, holding the
  prompt's text and the images, after the turns of the history.  The build of the text
  route with a prompt does the same: every earlier turn object stays as it was and one
  new turn object, holding the prompt's text and the files, is appended after the turns
  of the history.  Without a prompt and without files nothing is added and nothing
  changes.  Without a prompt but with files there are two cases: when the history is
  not empty and its last turn has role \<^verbatim>\<open>user\<close>, no turn is added and the file parts are
  appended to that turn of the history in place, all other turns staying as they were;
  otherwise every earlier turn stays as it was and one new turn object holding the file
  parts is appended.
\<close>

theorem C6_history_turns_after_build:
  shows "(\<forall>r < length s. fst (image_contents s b p) ! r = s ! r)
       \<and> (\<forall>r < length s.
            fst (text_contents s b) ! r =
              (if \<not> has_prompt b \<and> has_files b \<and> copy_history (history b) \<noteq> []
                  \<and> r = last (copy_history (history b)) \<and> role (s ! r) = ''user''
               then (s ! r)\<lparr>parts := parts (s ! r) @ map inline_part (file_list b)\<rparr>
               else s ! r))
       \<and> (has_prompt b \<or> \<not> has_files b \<longrightarrow> (\<forall>r < length s. fst (text_contents s b) ! r = s ! r))
       \<and> image_contents s b p =
           (s @ [\<lparr>role = ''user'',
                  parts = text_part p
                          # map inline_part (case images b of Some xs \<Rightarrow> xs | None \<Rightarrow> [])\<rparr>],
            copy_history (history b) @ [length s])
       \<and> (\<forall>q. prompt b = Some (PStr q) \<and> q \<noteq> [] \<longrightarrow>
            text_contents s b =
              (s @ [\<lparr>role = ''user'', parts = text_part q # map inline_part (file_list b)\<rparr>],
               copy_history (history b) @ [length s]))
       \<and> (\<not> has_prompt b \<and> \<not> has_files b \<longrightarrow>
            text_contents s b = (s, copy_history (history b)))
       \<and> (\<not> has_prompt b \<and> has_files b
            \<and> \<not> (copy_history (history b) \<noteq> []
                   \<and> role (s ! last (copy_history (history b))) = ''user'') \<longrightarrow>
            text_contents s b =
              (s @ [\<lparr>role = ''user'', parts = map inline_part (file_list b)\<rparr>],
               copy_history (history b) @ [length s]))
       \<and> (\<not> has_prompt b \<and> has_files b \<and> copy_history (history b) \<noteq> []
            \<and> role (s ! last (copy_history (history b))) = ''user'' \<longrightarrow>
            snd (text_contents s b) = copy_history (history b)
          \<and> length (fst (text_contents s b)) = length s)"
proof -
  have a: "\<forall>r < length s. fst (image_contents s b p) ! r = s ! r"
    by (simp add: image_contents_def push_turn_keeps)
  have b: "\<forall>r < length s.
            fst (text_contents s b) ! r =
              (if \<not> has_prompt b \<and> has_files b \<and> copy_history (history b) \<noteq> []
                  \<and> r = last (copy_history (history b)) \<and> role (s ! r) = ''user''
               then (s ! r)\<lparr>parts := parts (s ! r) @ map inline_part (file_list b)\<rparr>
               else s ! r)"
    using text_contents_nth by blast
  have c: "\<forall>r < length s. fst (text_contents s b) ! r = s ! r" if "has_prompt b \<or> \<not> has_files b"
    using that by (auto simp: text_contents_nth)
  note d = image_contents_appends [of s b p]
  have e: "text_contents s b =
              (s @ [\<lparr>role = ''user'', parts = text_part q # map inline_part (file_list b)\<rparr>],
               copy_history (history b) @ [length s])"
    if "prompt b = Some (PStr q) \<and> q \<noteq> []" for q
    using that by (simp add: text_contents_prompt_appends)
  have f: "text_contents s b = (s, copy_history (history b))"
    if "\<not> has_prompt b \<and> \<not> has_files b"
    using that by (simp add: text_contents_history_only)
  have g: "text_contents s b =
              (s @ [\<lparr>role = ''user'', parts = map inline_part (file_list b)\<rparr>],
               copy_history (history b) @ [length s])"
    if "\<not> has_prompt b \<and> has_files b
            \<and> \<not> (copy_history (history b) \<noteq> []
                   \<and> role (s ! last (copy_history (history b))) = ''user'')"
  proof -
    from that have np: "\<not> has_prompt b" and hf: "has_files b" by simp_all
    from that show ?thesis
      by (simp only: text_contents_files_only [OF np hf] if_False)
  qed
  have h: "snd (text_contents s b) = copy_history (history b)
          \<and> length (fst (text_contents s b)) = length s"
    if "\<not> has_prompt b \<and> has_files b \<and> copy_history (history b) \<noteq> []
            \<and> role (s ! last (copy_history (history b))) = ''user''"
  proof -
    from that have np: "\<not> has_prompt b" and hf: "has_files b" by simp_all
    from that show ?thesis
      by (simp add: text_contents_files_only [OF np hf])
  qed
  show ?thesis
    apply (intro conjI)
    subgoal by (rule a)
    subgoal by (rule b)
    subgoal using c by simp
    subgoal by (rule d)
    subgoal using e by simp
    subgoal using f by simp
    subgoal using g by simp
    subgoal using h by simp
    done
qed

text \<open>
  The claim as stated fails for files without a prompt after a history that ends in a
  user turn: that turn of the history has one more part after the build.
\<close>

theorem C6_counterexample:
  "parts (ex_store ! 0) = [text_part ''hi'']
   \<and> parts (fst (text_contents ex_store (empty_body\<lparr>files := Some [ex_png], history := Some [0]\<rparr>)) ! 0)
       = [text_part ''hi'', inline_part ex_png]"
  by (simp add: ex_store_def empty_body_def text_contents_def text_push_prompt_def
      copy_history_def attach_files_def)

text \<open>
  C6 for both routes on a store of two turns and a history of its first turn: the first
  turn stays as it was, and the prompt gives a new third turn object that the
  conversation ends with.
\<close>

theorem C6_witness:
  "(0::nat) < length ex_store
   \<and> fst (image_contents ex_store (empty_body\<lparr>images := Some [ex_png], history := Some [0]\<rparr>) ''cat'') ! 0
       = ex_store ! 0
   \<and> has_prompt (empty_body\<lparr>prompt := Some (PStr ''cat''), files := Some [ex_png], history := Some [0]\<rparr>)
   \<and> fst (text_contents ex_store
            (empty_body\<lparr>prompt := Some (PStr ''cat''), files := Some [ex_png], history := Some [0]\<rparr>)) ! 0
       = ex_store ! 0
   \<and> image_contents ex_store (empty_body\<lparr>images := Some [ex_png], history := Some [0]\<rparr>) ''cat''
       = (ex_store @ [\<lparr>role = ''user'', parts = [text_part ''cat'', inline_part ex_png]\<rparr>], [0, 2])
   \<and> text_contents ex_store
        (empty_body\<lparr>prompt := Some (PStr ''cat''), files := Some [ex_png], history := Some [0]\<rparr>)
       = (ex_store @ [\<lparr>role = ''user'', parts = [text_part ''cat'', inline_part ex_png]\<rparr>], [0, 2])"
proof -
  let ?bi = "empty_body\<lparr>images := Some [ex_png], history := Some [0]\<rparr>"
  let ?bt = "empty_body\<lparr>prompt := Some (PStr ''cat''), files := Some [ex_png], history := Some [0]\<rparr>"
  have l: "(0::nat) < length ex_store" by (simp add: ex_store_def)
  have h: "has_prompt ?bt"
    by (simp add: has_prompt_def)
  have pq: "prompt ?bt = Some (PStr ''cat'') \<and> ''cat'' \<noteq> []" by simp
  note I = C6_history_turns_after_build [of ex_store ?bi "''cat''"]
  note T = C6_history_turns_after_build [of ex_store ?bt "''cat''"]
  have i0: "fst (image_contents ex_store ?bi ''cat'') ! 0 = ex_store ! 0"
    using I [THEN conjunct1] l by simp
  have t0: "fst (text_contents ex_store ?bt) ! 0 = ex_store ! 0"
    using T [THEN conjunct2, THEN conjunct2, THEN conjunct1] h l by simp
  have i1: "image_contents ex_store ?bi ''cat''
       = (ex_store @ [\<lparr>role = ''user'', parts = [text_part ''cat'', inline_part ex_png]\<rparr>], [0, 2])"
    using I [THEN conjunct2, THEN conjunct2, THEN conjunct2, THEN conjunct1]
    by (simp add: copy_history_def ex_store_def)
  have t1: "text_contents ex_store ?bt
       = (ex_store @ [\<lparr>role = ''user'', parts = [text_part ''cat'', inline_part ex_png]\<rparr>], [0, 2])"
    using T [THEN conjunct2, THEN conjunct2, THEN conjunct2, THEN conjunct2, THEN conjunct1] pq
    by (simp add: copy_history_def file_list_def ex_store_def)
  from l h i0 t0 i1 t1 show ?thesis by simp
qed

section \<open>The conversation built by the text route\<close>









end
